theory Spec2Isabelle
  imports Complex_Main
begin

section \<open>Python values, exceptions and strings\<close>

text \<open>
  The bridge is a Python module. Its values are the JSON-representable Python values;
  a raised exception is the left injection of a sum. Floats are modelled by the
  rationals they denote (every finite float is one, and comparison is exact), so
  NaN and the infinities are outside the model.
\<close>

datatype exn =
    ImportError
  | AttributeError
  | TypeError
  | KeyError string
  | ValueError string
  | JSONDecodeError
  | RuntimeError string
  | LibraryError

datatype pyval =
    PyNone
  | PyBool bool
  | PyInt int
  | PyFloat rat
  | PyStr string
  | PyList "pyval list"
  | PyDict "(string \<times> pyval) list"

definition and_then :: "exn + 'a \<Rightarrow> ('a \<Rightarrow> exn + 'b) \<Rightarrow> exn + 'b" where
  "and_then r f = (case r of Inl e \<Rightarrow> Inl e | Inr x \<Rightarrow> f x)"

text \<open>
  A string is the list of the bytes of its UTF-8 encoding. \<open>p in s\<close> for strings:
  \<open>p\<close> occurs in \<open>s\<close> as a contiguous substring (on UTF-8 the search on bytes
  and the search on code points agree).
\<close>

fun startswith :: "string \<Rightarrow> string \<Rightarrow> bool" where
  "startswith s [] = True"
| "startswith [] (c # p) = False"
| "startswith (d # s) (c # p) = (d = c \<and> startswith s p)"

fun contains :: "string \<Rightarrow> string \<Rightarrow> bool" where
  "contains [] p = (p = [])"
| "contains (c # s) p = (startswith (c # s) p \<or> contains s p)"

section \<open>Dynamic typing\<close>

text \<open>
  The arguments of an operation are whatever the JSON payload holds, so the
  operations take Python values and the model writes out what Python does with each
  type of value.

  \<open>str(v)\<close>, which is also what an f-string does with \<open>{v}\<close>: a string is itself;
  for the other values the builtin is a parameter, \<open>str_of\<close>.
\<close>

definition py_str :: "(pyval \<Rightarrow> string) \<Rightarrow> pyval \<Rightarrow> string" where
  "py_str str_of v = (case v of PyStr s \<Rightarrow> s | _ \<Rightarrow> str_of v)"

text \<open>
  \<open>min(a, b)\<close> with an integer \<open>b\<close>: Python returns \<open>a\<close> unless \<open>b < a\<close>, and the
  comparison raises TypeError when \<open>a\<close> is not a number (a boolean counts as 0 or 1).
\<close>

fun py_min :: "pyval \<Rightarrow> int \<Rightarrow> exn + pyval" where
  "py_min (PyInt a) b = Inr (if b < a then PyInt b else PyInt a)"
| "py_min (PyFloat x) b = Inr (if of_int b < x then PyInt b else PyFloat x)"
| "py_min (PyBool t) b = Inr (if b < (if t then 1 else 0) then PyInt b else PyBool t)"
| "py_min v b = Inl TypeError"

text \<open>
  \<open>pattern.lower()\<close>: AttributeError on a value that is not a string. The method
  itself (which folds every cased letter of Unicode) is a parameter, \<open>lower\<close>.
\<close>

fun lower_method :: "(string \<Rightarrow> string) \<Rightarrow> pyval \<Rightarrow> exn + string" where
  "lower_method lower (PyStr s) = Inr (lower s)"
| "lower_method lower v = Inl AttributeError"

text \<open>\<open>properties.items()\<close>: AttributeError on a value that is not a mapping.\<close>

fun items :: "pyval \<Rightarrow> exn + (string \<times> pyval) list" where
  "items (PyDict d) = Inr d"
| "items v = Inl AttributeError"

text \<open>\<open>sti > threshold\<close> for a numeric \<open>sti\<close>: TypeError when the threshold is not a number.\<close>

fun exceeds :: "rat \<Rightarrow> pyval \<Rightarrow> exn + bool" where
  "exceeds sti (PyInt i) = Inr (sti > of_int i)"
| "exceeds sti (PyFloat x) = Inr (sti > x)"
| "exceeds sti (PyBool t) = Inr (sti > (if t then 1 else 0))"
| "exceeds sti v = Inl TypeError"

section \<open>The reasoning backend\<close>

text \<open>
  Modelled from the spec: the external reasoning library (section 6, the capability
  surface of the black-box collaborator) is not part of the repository. Atoms are
  typed nodes and links, identified by their type and their name or outgoing list.
  The store keeps the atoms handed to \<open>add_atom\<close>, oldest first, each with the truth
  value set on it; its contents are these atoms and the atoms below them. What the
  bridge only observes of the library is a field of the store: the string form of an
  atom (\<open>str(atom)\<close>), the string form of its handle (\<open>str(atom.h)\<close>), the predicate
  name a link answers to \<open>get_predicate\<close> (\<open>None\<close> when it has no such attribute),
  the attention table, and the exception a broken backend raises at every call.
  Building a node or a link from well-typed arguments is a pure construction, and
  the imports inside the operations succeed once the mode is present.
\<close>

datatype atom =
    ConceptNode string
  | PredicateNode string
  | ListLink "atom list"
  | EvaluationLink "atom list"

datatype truth_value = TruthValue rat rat

text \<open>
  The library's constructors take a string for the name of a node and a number for
  the strength of a truth value; on another value they raise an exception of the
  library's, written \<open>LibraryError\<close>.
\<close>

fun node_name :: "pyval \<Rightarrow> exn + string" where
  "node_name (PyStr s) = Inr s"
| "node_name v = Inl LibraryError"

fun strength_value :: "pyval \<Rightarrow> exn + rat" where
  "strength_value (PyInt i) = Inr (of_int i)"
| "strength_value (PyFloat x) = Inr x"
| "strength_value (PyBool t) = Inr (if t then 1 else 0)"
| "strength_value v = Inl LibraryError"

fun tv_mean :: "truth_value \<Rightarrow> rat" where
  "tv_mean (TruthValue m c) = m"

record atom_space =
  added :: "(atom \<times> truth_value option) list"
  attention :: "(atom \<times> rat) list"
  atom_str :: "atom \<Rightarrow> string"
  atom_h :: "atom \<Rightarrow> string"
  get_predicate :: "atom \<Rightarrow> string option"
  fault :: "exn option"

fun outgoing :: "atom \<Rightarrow> atom list" where
  "outgoing (ConceptNode n) = []"
| "outgoing (PredicateNode n) = []"
| "outgoing (ListLink xs) = xs"
| "outgoing (EvaluationLink xs) = xs"

fun subatoms :: "atom \<Rightarrow> atom list" where
  "subatoms (ConceptNode n) = [ConceptNode n]"
| "subatoms (PredicateNode n) = [PredicateNode n]"
| "subatoms (ListLink xs) = ListLink xs # concat (map subatoms xs)"
| "subatoms (EvaluationLink xs) = EvaluationLink xs # concat (map subatoms xs)"

definition add_atom :: "atom_space \<Rightarrow> atom \<Rightarrow> truth_value option \<Rightarrow> atom_space" where
  "add_atom sp a tv = sp\<lparr>added := added sp @ [(a, tv)]\<rparr>"

definition get_atoms_by_type :: "atom_space \<Rightarrow> atom list" where
  "get_atoms_by_type sp = remdups (concat (map (\<lambda>(a, tv). subatoms a) (added sp)))"

definition in_atomspace :: "atom \<Rightarrow> atom_space \<Rightarrow> bool" where
  "in_atomspace a sp = (a \<in> set (get_atoms_by_type sp))"

definition get_incoming :: "atom_space \<Rightarrow> atom \<Rightarrow> atom list" where
  "get_incoming sp a = filter (\<lambda>l. a \<in> set (outgoing l)) (get_atoms_by_type sp)"

definition asti :: "atom_space \<Rightarrow> atom \<Rightarrow> rat" where
  "asti sp a = (case map_of (attention sp) a of None \<Rightarrow> 0 | Some v \<Rightarrow> v)"

definition tv :: "atom_space \<Rightarrow> atom \<Rightarrow> truth_value" where
  "tv sp a =
     (case filter (\<lambda>(b, t). b = a \<and> t \<noteq> None) (rev (added sp)) of
        (b, Some t) # rest \<Rightarrow> t
      | _ \<Rightarrow> TruthValue 1 0)"

definition clear :: "atom_space \<Rightarrow> atom_space" where
  "clear sp = sp\<lparr>added := [], attention := []\<rparr>"

section \<open>The bridge's globals\<close>

record bridge =
  atomspace :: "atom_space option"
  opencog_available :: bool

definition initial :: bridge where
  "initial = \<lparr>atomspace = None, opencog_available = False\<rparr>"

text \<open>
  The store a backend call acts on. On \<open>None\<close> the call raises \<open>e\<close> (AttributeError
  for a method call, TypeError for \<open>in\<close>); a broken backend raises its fault.
\<close>

definition backend :: "exn \<Rightarrow> bridge \<Rightarrow> exn + atom_space" where
  "backend e st =
     (case atomspace st of
        None \<Rightarrow> Inl e
      | Some sp \<Rightarrow> (case fault sp of None \<Rightarrow> Inr sp | Some x \<Rightarrow> Inl x))"

section \<open>Context acquisition\<close>

text \<open>
  What the process finds when it tries to acquire the backend: the exception the
  import statements raise (if any), the result of \<open>AtomSpace()\<close>, and the exception
  the library's initializer raises on the new store (if any).
\<close>

record environment =
  import_opencog :: "exn option"
  new_atomspace :: "exn + atom_space"
  library_initialize :: "atom_space \<Rightarrow> exn option"

text \<open>The body of the \<open>try\<close> block of \<open>initialize_opencog\<close>, with the globals as it leaves them.\<close>

definition acquire :: "environment \<Rightarrow> bridge \<Rightarrow> (exn + bool) \<times> bridge" where
  "acquire env st =
     (case import_opencog env of
        Some e \<Rightarrow> (Inl e, st)
      | None \<Rightarrow>
          (case new_atomspace env of
             Inl e \<Rightarrow> (Inl e, st)
           | Inr sp \<Rightarrow>
               (let st1 = st\<lparr>atomspace := Some sp\<rparr> in
                case library_initialize env sp of
                  Some e \<Rightarrow> (Inl e, st1)
                | None \<Rightarrow> (Inr True, st1\<lparr>opencog_available := True\<rparr>))))"

text \<open>
  \<open>initialize_opencog\<close>: both handlers (\<open>except ImportError\<close>, \<open>except Exception\<close>)
  log, clear the flag and return \<open>False\<close>; they differ in the log level only.
\<close>

definition initialize_opencog :: "environment \<Rightarrow> bridge \<Rightarrow> exn + (bool \<times> bridge)" where
  "initialize_opencog env st =
     (case acquire env st of
        (Inr b, st') \<Rightarrow> Inr (b, st')
      | (Inl ImportError, st') \<Rightarrow> Inr (False, st'\<lparr>opencog_available := False\<rparr>)
      | (Inl e, st') \<Rightarrow> Inr (False, st'\<lparr>opencog_available := False\<rparr>))"

section \<open>The operations\<close>

text \<open>
  An operation returns its value, with the globals as it leaves them when it changes
  them, or the exception it raises. The globals after a raise are not kept: \<open>main\<close>
  exits then.
\<close>

definition initialize_atomspace :: "bridge \<Rightarrow> exn + string" where
  "initialize_atomspace st =
     (if \<not> opencog_available st then Inr ''mock_atomspace_id''
      else Inr ''atomspace_initialized'')"

definition create_concept_node ::
  "(pyval \<Rightarrow> string) \<Rightarrow> pyval \<Rightarrow> bridge \<Rightarrow> exn + (string \<times> bridge)" where
  "create_concept_node str_of concept st =
     (if \<not> opencog_available st then Inr (''mock_concept_'' @ py_str str_of concept, st)
      else and_then (node_name concept) (\<lambda>name.
           and_then (backend AttributeError st) (\<lambda>sp.
        let node = ConceptNode name in
        Inr (atom_h sp node, st\<lparr>atomspace := Some (add_atom sp node None)\<rparr>))))"

definition create_predicate_node ::
  "(pyval \<Rightarrow> string) \<Rightarrow> pyval \<Rightarrow> bridge \<Rightarrow> exn + (string \<times> bridge)" where
  "create_predicate_node str_of predicate st =
     (if \<not> opencog_available st then Inr (''mock_predicate_'' @ py_str str_of predicate, st)
      else and_then (node_name predicate) (\<lambda>name.
           and_then (backend AttributeError st) (\<lambda>sp.
        let node = PredicateNode name in
        Inr (atom_h sp node, st\<lparr>atomspace := Some (add_atom sp node None)\<rparr>))))"

text \<open>The loop of \<open>add_transaction_entity\<close> over \<open>properties.items()\<close>.\<close>

fun add_properties ::
  "(pyval \<Rightarrow> string) \<Rightarrow> atom \<Rightarrow> (string \<times> pyval) list \<Rightarrow> atom_space \<Rightarrow> atom_space" where
  "add_properties str_of entity_node [] sp = sp"
| "add_properties str_of entity_node ((prop_name, prop_value) # rest) sp =
     (let pred_node = PredicateNode (''has_'' @ prop_name);
          value_node = ConceptNode (py_str str_of prop_value);
          eval_link = EvaluationLink [pred_node, ListLink [entity_node, value_node]]
      in add_properties str_of entity_node rest (add_atom sp eval_link None))"

definition add_transaction_entity ::
  "(pyval \<Rightarrow> string) \<Rightarrow> pyval \<Rightarrow> pyval \<Rightarrow> bridge \<Rightarrow> exn + (string \<times> bridge)" where
  "add_transaction_entity str_of entity_id properties st =
     (if \<not> opencog_available st then Inr (''mock_entity_'' @ py_str str_of entity_id, st)
      else and_then (backend AttributeError st) (\<lambda>sp.
        let entity_node = ConceptNode (''entity_'' @ py_str str_of entity_id);
            sp1 = add_atom sp entity_node None
        in and_then (items properties) (\<lambda>props.
             let sp2 = add_properties str_of entity_node props sp1
             in Inr (atom_h sp entity_node, st\<lparr>atomspace := Some sp2\<rparr>))))"

definition create_relationship ::
  "(pyval \<Rightarrow> string) \<Rightarrow> pyval \<Rightarrow> pyval \<Rightarrow> pyval \<Rightarrow> pyval \<Rightarrow> bridge \<Rightarrow> exn + (string \<times> bridge)" where
  "create_relationship str_of predicate from_entity to_entity strength st =
     (if \<not> opencog_available st
      then Inr (''mock_relationship_'' @ py_str str_of predicate @ ''_'' @
                py_str str_of from_entity @ ''_'' @ py_str str_of to_entity, st)
      else and_then (node_name from_entity) (\<lambda>from_name.
           and_then (node_name to_entity) (\<lambda>to_name.
           and_then (node_name predicate) (\<lambda>pred_name.
           and_then (strength_value strength) (\<lambda>s.
           and_then (backend AttributeError st) (\<lambda>sp.
        let from_node = ConceptNode from_name;
            to_node = ConceptNode to_name;
            pred_node = PredicateNode pred_name;
            eval_link = EvaluationLink [pred_node, ListLink [from_node, to_node]]
        in Inr (atom_h sp eval_link,
                st\<lparr>atomspace := Some (add_atom sp eval_link (Some (TruthValue s (9 / 10))))\<rparr>)))))))"

text \<open>The loop of \<open>execute_pattern_matching\<close>: handles of the matching atoms, in order.\<close>

fun collect_matches ::
  "(string \<Rightarrow> string) \<Rightarrow> atom_space \<Rightarrow> pyval \<Rightarrow> atom list \<Rightarrow> string list \<Rightarrow> exn + string list" where
  "collect_matches lower sp pattern [] matching_atoms = Inr matching_atoms"
| "collect_matches lower sp pattern (a # atoms) matching_atoms =
     (case lower_method lower pattern of
        Inl e \<Rightarrow> Inl e
      | Inr p \<Rightarrow>
          (if contains (lower (atom_str sp a)) p
           then collect_matches lower sp pattern atoms (matching_atoms @ [atom_h sp a])
           else collect_matches lower sp pattern atoms matching_atoms))"

definition execute_pattern_matching ::
  "(string \<Rightarrow> string) \<Rightarrow> pyval \<Rightarrow> bridge \<Rightarrow> exn + (string \<times> pyval) list list" where
  "execute_pattern_matching lower pattern st =
     (if \<not> opencog_available st
      then Inr [[(''pattern'', pattern),
                 (''matches'', PyList [PyStr ''mock_match_1'', PyStr ''mock_match_2'']),
                 (''confidence'', PyFloat (85 / 100))]]
      else and_then (backend AttributeError st) (\<lambda>sp.
           and_then (collect_matches lower sp pattern (get_atoms_by_type sp) [])
             (\<lambda>matching_atoms.
        Inr (if matching_atoms \<noteq> []
             then [[(''pattern'', pattern),
                    (''matches'', PyList (map PyStr (take 10 matching_atoms))),
                    (''confidence'', PyFloat (8 / 10)),
                    (''count'', PyInt (int (length matching_atoms)))]]
             else []))))"

definition run_pln_inference ::
  "(pyval \<Rightarrow> string) \<Rightarrow> pyval \<Rightarrow> pyval \<Rightarrow> bridge \<Rightarrow> exn + (string \<times> pyval) list list" where
  "run_pln_inference str_of query max_steps st =
     (if \<not> opencog_available st
      then and_then (py_min max_steps 5) (\<lambda>steps.
           Inr [[(''query'', query),
                 (''inference_result'', PyStr ''mock_inference_result''),
                 (''confidence'', PyFloat (75 / 100)),
                 (''steps'', steps)]])
      else and_then (py_min max_steps 3) (\<lambda>steps.
           Inr [[(''query'', query),
                 (''inference_result'', PyStr (''inferred_from_'' @ py_str str_of query)),
                 (''confidence'', PyFloat (7 / 10)),
                 (''steps'', steps),
                 (''reasoning_path'',
                    PyList [PyStr ''step1'', PyStr ''step2'', PyStr ''conclusion''])]]))"

text \<open>The loop of \<open>detect_anomalies\<close>.\<close>

fun scan ::
  "atom_space \<Rightarrow> pyval \<Rightarrow> atom list \<Rightarrow> (string \<times> pyval) list list \<Rightarrow>
   exn + (string \<times> pyval) list list" where
  "scan sp threshold [] anomalies = Inr anomalies"
| "scan sp threshold (a # atoms) anomalies =
     (case exceeds (asti sp a) threshold of
        Inl e \<Rightarrow> Inl e
      | Inr high \<Rightarrow>
          (if high
           then scan sp threshold atoms
                  (anomalies @
                   [[(''atom_id'', PyStr (atom_h sp a)),
                     (''anomaly_score'', PyFloat (asti sp a)),
                     (''anomaly_type'', PyStr ''high_attention''),
                     (''description'',
                        PyStr (''Atom '' @ atom_str sp a @
                               '' has unusually high attention value''))]])
           else scan sp threshold atoms anomalies))"

definition detect_anomalies :: "pyval \<Rightarrow> bridge \<Rightarrow> exn + (string \<times> pyval) list list" where
  "detect_anomalies threshold st =
     (if \<not> opencog_available st
      then Inr [[(''entity_id'', PyStr ''mock_entity_1''),
                 (''anomaly_score'', PyFloat (95 / 100)),
                 (''anomaly_type'', PyStr ''unusual_transaction_pattern''),
                 (''description'', PyStr ''Mock anomaly detection result'')]]
      else and_then (backend AttributeError st) (\<lambda>sp.
        scan sp threshold (get_atoms_by_type sp) []))"

text \<open>The loop of \<open>get_cognitive_insights\<close> over the incoming links.\<close>

fun behaviors ::
  "(string \<Rightarrow> string) \<Rightarrow> atom_space \<Rightarrow> atom list \<Rightarrow> string list \<Rightarrow> string list" where
  "behaviors lower sp [] patterns = patterns"
| "behaviors lower sp (link # incoming) patterns =
     (case get_predicate sp link of
        None \<Rightarrow> behaviors lower sp incoming patterns
      | Some pred_name \<Rightarrow>
          (if contains (lower pred_name) ''behavior''
           then behaviors lower sp incoming (patterns @ [pred_name])
           else behaviors lower sp incoming patterns))"

definition get_cognitive_insights ::
  "(string \<Rightarrow> string) \<Rightarrow> (pyval \<Rightarrow> string) \<Rightarrow> pyval \<Rightarrow> bridge \<Rightarrow> exn + (string \<times> pyval) list" where
  "get_cognitive_insights lower str_of entity_id st =
     (if \<not> opencog_available st
      then Inr [(''entity_id'', entity_id),
                (''behavioral_patterns'', PyList [PyStr ''mock_pattern_1'', PyStr ''mock_pattern_2'']),
                (''cognitive_score'', PyFloat (8 / 10)),
                (''attention_level'', PyFloat (6 / 10)),
                (''relationship_count'', PyInt 5)]
      else and_then (backend TypeError st) (\<lambda>sp.
        let entity_node = ConceptNode (''entity_'' @ py_str str_of entity_id);
            present = in_atomspace entity_node sp;
            incoming = get_incoming sp entity_node
        in Inr [(''entity_id'', entity_id),
                (''behavioral_patterns'', PyList (map PyStr (behaviors lower sp incoming []))),
                (''cognitive_score'',
                   PyFloat (if present then tv_mean (tv sp entity_node) else 0)),
                (''attention_level'', PyFloat (if present then asti sp entity_node else 0)),
                (''relationship_count'', PyInt (int (length incoming)))]))"

definition clear_atomspace :: "bridge \<Rightarrow> exn + bridge" where
  "clear_atomspace st =
     (if \<not> opencog_available st then Inr st
      else and_then (backend AttributeError st) (\<lambda>sp.
        Inr (st\<lparr>atomspace := Some (clear sp)\<rparr>)))"

definition test_connection :: string where
  "test_connection = ''OK''"

definition get_opencog_version :: "bridge \<Rightarrow> string" where
  "get_opencog_version st =
     (if \<not> opencog_available st then ''OpenCog not available (mock mode)''
      else ''OpenCog 5.0.3 (via Python bridge)'')"

text \<open>
  \<open>shutdown\<close>: an error of \<open>atomspace.clear()\<close> is logged and swallowed, and the
  handle is dropped in every case.
\<close>

definition shutdown :: "bridge \<Rightarrow> bridge" where
  "shutdown st =
     (let st1 = (if atomspace st \<noteq> None \<and> opencog_available st
                 then (case backend AttributeError st of
                         Inl e \<Rightarrow> st
                       | Inr sp \<Rightarrow> st\<lparr>atomspace := Some (clear sp)\<rparr>)
                 else st)
      in st1\<lparr>atomspace := None\<rparr>)"

section \<open>The operation set\<close>

text \<open>
  An operation with its arguments, and the value the Python function returns for it
  (\<open>None\<close> for the two that return nothing). An operation is well typed when its
  arguments have the types the signatures annotate.
\<close>

datatype operation =
    Initialize_atomspace
  | Create_concept_node pyval
  | Create_predicate_node pyval
  | Add_transaction_entity pyval pyval
  | Create_relationship pyval pyval pyval pyval
  | Execute_pattern_matching pyval
  | Run_pln_inference pyval pyval
  | Detect_anomalies pyval
  | Get_cognitive_insights pyval
  | Clear_atomspace
  | Test_connection
  | Get_opencog_version
  | Shutdown

fun is_str :: "pyval \<Rightarrow> bool" where
  "is_str (PyStr s) = True"
| "is_str v = False"

fun is_int :: "pyval \<Rightarrow> bool" where
  "is_int (PyInt i) = True"
| "is_int v = False"

fun is_float :: "pyval \<Rightarrow> bool" where
  "is_float (PyFloat x) = True"
| "is_float (PyInt i) = True"
| "is_float v = False"

fun is_dict :: "pyval \<Rightarrow> bool" where
  "is_dict (PyDict d) = True"
| "is_dict v = False"

fun well_typed :: "operation \<Rightarrow> bool" where
  "well_typed (Create_concept_node concept) = is_str concept"
| "well_typed (Create_predicate_node predicate) = is_str predicate"
| "well_typed (Add_transaction_entity entity_id properties) =
     (is_str entity_id \<and> is_dict properties)"
| "well_typed (Create_relationship predicate from_entity to_entity strength) =
     (is_str predicate \<and> is_str from_entity \<and> is_str to_entity \<and> is_float strength)"
| "well_typed (Execute_pattern_matching pattern) = is_str pattern"
| "well_typed (Run_pln_inference query max_steps) = (is_str query \<and> is_int max_steps)"
| "well_typed (Detect_anomalies threshold) = is_float threshold"
| "well_typed (Get_cognitive_insights entity_id) = is_str entity_id"
| "well_typed op = True"

definition returning :: "('a \<Rightarrow> pyval) \<Rightarrow> bridge \<Rightarrow> exn + 'a \<Rightarrow> exn + (pyval \<times> bridge)" where
  "returning wrap st r = and_then r (\<lambda>v. Inr (wrap v, st))"

definition returning_state :: "exn + (string \<times> bridge) \<Rightarrow> exn + (pyval \<times> bridge)" where
  "returning_state r = and_then r (\<lambda>(v, st'). Inr (PyStr v, st'))"

definition records :: "(string \<times> pyval) list list \<Rightarrow> pyval" where
  "records rs = PyList (map PyDict rs)"

fun call ::
  "(string \<Rightarrow> string) \<Rightarrow> (pyval \<Rightarrow> string) \<Rightarrow> operation \<Rightarrow> bridge \<Rightarrow> exn + (pyval \<times> bridge)" where
  "call lower str_of Initialize_atomspace st = returning PyStr st (initialize_atomspace st)"
| "call lower str_of (Create_concept_node concept) st =
     returning_state (create_concept_node str_of concept st)"
| "call lower str_of (Create_predicate_node predicate) st =
     returning_state (create_predicate_node str_of predicate st)"
| "call lower str_of (Add_transaction_entity entity_id properties) st =
     returning_state (add_transaction_entity str_of entity_id properties st)"
| "call lower str_of (Create_relationship predicate from_entity to_entity strength) st =
     returning_state (create_relationship str_of predicate from_entity to_entity strength st)"
| "call lower str_of (Execute_pattern_matching pattern) st =
     returning records st (execute_pattern_matching lower pattern st)"
| "call lower str_of (Run_pln_inference query max_steps) st =
     returning records st (run_pln_inference str_of query max_steps st)"
| "call lower str_of (Detect_anomalies threshold) st =
     returning records st (detect_anomalies threshold st)"
| "call lower str_of (Get_cognitive_insights entity_id) st =
     returning PyDict st (get_cognitive_insights lower str_of entity_id st)"
| "call lower str_of Clear_atomspace st =
     and_then (clear_atomspace st) (\<lambda>st'. Inr (PyNone, st'))"
| "call lower str_of Test_connection st = Inr (PyStr test_connection, st)"
| "call lower str_of Get_opencog_version st = Inr (PyStr (get_opencog_version st), st)"
| "call lower str_of Shutdown st = Inr (PyNone, shutdown st)"

section \<open>The dispatcher\<close>

text \<open>
  \<open>parameters[key]\<close>: KeyError on a missing key, TypeError when the decoded payload
  is not a mapping. The value found is passed on as it is. A decoded mapping holds
  each key once.
\<close>

definition subscript :: "pyval \<Rightarrow> string \<Rightarrow> exn + pyval" where
  "subscript parameters k =
     (case parameters of
        PyDict d \<Rightarrow> (case map_of d k of None \<Rightarrow> Inl (KeyError k) | Some v \<Rightarrow> Inr v)
      | _ \<Rightarrow> Inl TypeError)"

definition named :: "string \<Rightarrow> exn + (pyval \<times> bridge) \<Rightarrow> exn + (pyval \<times> bridge)" where
  "named token r = and_then r (\<lambda>(v, st'). Inr (PyStr token, st'))"

text \<open>The \<open>if\<close>/\<open>elif\<close> chain of \<open>main\<close>, from the function name to \<open>result\<close>.\<close>

definition dispatch ::
  "(string \<Rightarrow> string) \<Rightarrow> (pyval \<Rightarrow> string) \<Rightarrow> string \<Rightarrow> pyval \<Rightarrow> bridge \<Rightarrow>
   exn + (pyval \<times> bridge)" where
  "dispatch lower str_of function_name parameters st =
     (if function_name = ''initialize_atomspace'' then call lower str_of Initialize_atomspace st
      else if function_name = ''create_concept_node'' then
        and_then (subscript parameters ''concept'') (\<lambda>concept.
        call lower str_of (Create_concept_node concept) st)
      else if function_name = ''create_predicate_node'' then
        and_then (subscript parameters ''predicate'') (\<lambda>predicate.
        call lower str_of (Create_predicate_node predicate) st)
      else if function_name = ''add_transaction_entity'' then
        and_then (subscript parameters ''entity_id'') (\<lambda>entity_id.
        and_then (subscript parameters ''properties'') (\<lambda>properties.
        call lower str_of (Add_transaction_entity entity_id properties) st))
      else if function_name = ''create_relationship'' then
        and_then (subscript parameters ''predicate'') (\<lambda>predicate.
        and_then (subscript parameters ''from_entity'') (\<lambda>from_entity.
        and_then (subscript parameters ''to_entity'') (\<lambda>to_entity.
        and_then (subscript parameters ''strength'') (\<lambda>strength.
        call lower str_of (Create_relationship predicate from_entity to_entity strength) st))))
      else if function_name = ''execute_pattern_matching'' then
        and_then (subscript parameters ''pattern'') (\<lambda>pattern.
        call lower str_of (Execute_pattern_matching pattern) st)
      else if function_name = ''run_pln_inference'' then
        and_then (subscript parameters ''query'') (\<lambda>query.
        and_then (subscript parameters ''max_steps'') (\<lambda>max_steps.
        call lower str_of (Run_pln_inference query max_steps) st))
      else if function_name = ''detect_anomalies'' then
        and_then (subscript parameters ''threshold'') (\<lambda>threshold.
        call lower str_of (Detect_anomalies threshold) st)
      else if function_name = ''get_cognitive_insights'' then
        and_then (subscript parameters ''entity_id'') (\<lambda>entity_id.
        call lower str_of (Get_cognitive_insights entity_id) st)
      else if function_name = ''clear_atomspace'' then
        named ''cleared'' (call lower str_of Clear_atomspace st)
      else if function_name = ''test_connection'' then call lower str_of Test_connection st
      else if function_name = ''get_opencog_version'' then
        call lower str_of Get_opencog_version st
      else if function_name = ''shutdown'' then named ''shutdown'' (call lower str_of Shutdown st)
      else Inl (ValueError (''Unknown function: '' @ function_name)))"

text \<open>The names the dispatcher knows: the operation set.\<close>

definition operation_names :: "string list" where
  "operation_names =
     [''initialize_atomspace'', ''create_concept_node'', ''create_predicate_node'',
      ''add_transaction_entity'', ''create_relationship'', ''execute_pattern_matching'',
      ''run_pln_inference'', ''detect_anomalies'', ''get_cognitive_insights'',
      ''clear_atomspace'', ''test_connection'', ''get_opencog_version'', ''shutdown'']"

section \<open>The process\<close>

text \<open>
  One line of standard output: the usage message, \<open>print(json.dumps(result))\<close> or
  \<open>print(str(result))\<close>. The log goes to the error channel and is not modelled.
\<close>

datatype printed = Usage | Json pyval | Plain string

record process =
  stdout :: "printed list"
  exit_status :: nat

fun is_dict_or_list :: "pyval \<Rightarrow> bool" where
  "is_dict_or_list (PyDict d) = True"
| "is_dict_or_list (PyList xs) = True"
| "is_dict_or_list v = False"

text \<open>The \<open>try\<close> block of \<open>main\<close> up to \<open>result\<close>; \<open>loads\<close> is \<open>json.loads\<close>.\<close>

definition run ::
  "environment \<Rightarrow> (string \<Rightarrow> exn + pyval) \<Rightarrow> (string \<Rightarrow> string) \<Rightarrow> (pyval \<Rightarrow> string) \<Rightarrow>
   string \<Rightarrow> string \<Rightarrow> bridge \<Rightarrow> exn + (pyval \<times> bridge)" where
  "run env loads lower str_of function_name parameters_json st =
     and_then (if atomspace st = None then initialize_opencog env st else Inr (True, st))
       (\<lambda>(b, st1).
     and_then (if parameters_json \<noteq> ''null'' then loads parameters_json else Inr (PyDict []))
       (\<lambda>parameters. dispatch lower str_of function_name parameters st1))"

definition main ::
  "environment \<Rightarrow> (string \<Rightarrow> exn + pyval) \<Rightarrow> (string \<Rightarrow> string) \<Rightarrow> (pyval \<Rightarrow> string) \<Rightarrow>
   string list \<Rightarrow> bridge \<Rightarrow> process" where
  "main env loads lower str_of argv st =
     (if length argv \<noteq> 3 then \<lparr>stdout = [Usage], exit_status = 1\<rparr>
      else
        (case run env loads lower str_of (argv ! 1) (argv ! 2) st of
           Inl e \<Rightarrow> \<lparr>stdout = [], exit_status = 1\<rparr>
         | Inr (result, st') \<Rightarrow>
             \<lparr>stdout =
                (if result \<noteq> PyNone
                 then [if is_dict_or_list result then Json result
                       else Plain (py_str str_of result)]
                 else []),
              exit_status = 0\<rparr>))"

section \<open>Reading results\<close>

text \<open>The \<open>steps\<close> field of an inference record.\<close>

definition steps_of :: "(string \<times> pyval) list \<Rightarrow> int option" where
  "steps_of r = (case map_of r ''steps'' of Some (PyInt n) \<Rightarrow> Some n | _ \<Rightarrow> None)"

text \<open>The values \<open>min\<close> can compare with an integer: the numbers, booleans among them.\<close>

fun comparable :: "pyval \<Rightarrow> bool" where
  "comparable (PyInt i) = True"
| "comparable (PyFloat x) = True"
| "comparable (PyBool t) = True"
| "comparable v = False"

text \<open>
  The number of stored elements whose string form contains the pattern, case
  insensitively; with no store there is no stored element.
\<close>

definition true_count :: "(string \<Rightarrow> string) \<Rightarrow> bridge \<Rightarrow> string \<Rightarrow> nat" where
  "true_count lower st pattern =
     (case atomspace st of
        None \<Rightarrow> 0
      | Some sp \<Rightarrow>
          length (filter (\<lambda>a. contains (lower (atom_str sp a)) (lower pattern))
                    (get_atoms_by_type sp)))"

text \<open>
  The pattern-query property as the specification words it: the result carries a
  matches list of length \<open>min(true_count, 10)\<close> and a count field equal to
  \<open>true_count\<close>.
\<close>

definition pattern_query_as_specified :: "(string \<Rightarrow> string) \<Rightarrow> bridge \<Rightarrow> string \<Rightarrow> bool" where
  "pattern_query_as_specified lower st pattern =
     (case execute_pattern_matching lower (PyStr pattern) st of
        Inr [r] \<Rightarrow>
          (case (map_of r ''matches'', map_of r ''count'') of
             (Some (PyList ms), Some (PyInt c)) \<Rightarrow>
               length ms = min (true_count lower st pattern) 10 \<and>
               c = int (true_count lower st pattern)
           | _ \<Rightarrow> False)
      | _ \<Rightarrow> False)"

text \<open>
  The labelled associations handed to the store so far, oldest first, and the
  association the specification describes for one property of an entity: predicate
  \<open>has_<key>\<close>, from the entity's node to the node of the stringified value.
\<close>

fun is_evaluation :: "atom \<Rightarrow> bool" where
  "is_evaluation (EvaluationLink xs) = True"
| "is_evaluation a = False"

definition associations :: "bridge \<Rightarrow> atom list" where
  "associations st =
     (case atomspace st of
        None \<Rightarrow> []
      | Some sp \<Rightarrow> filter is_evaluation (map fst (added sp)))"

definition property_link :: "(pyval \<Rightarrow> string) \<Rightarrow> string \<Rightarrow> string \<times> pyval \<Rightarrow> atom" where
  "property_link str_of entity_id kv =
     EvaluationLink
       [PredicateNode (''has_'' @ fst kv),
        ListLink [ConceptNode (''entity_'' @ entity_id), ConceptNode (py_str str_of (snd kv))]]"

text \<open>
  The add-entity property as the specification words it: the call adds exactly one
  such association per property, in the order of the map.
\<close>

definition add_entity_as_specified ::
  "(pyval \<Rightarrow> string) \<Rightarrow> string \<Rightarrow> (string \<times> pyval) list \<Rightarrow> bridge \<Rightarrow> bool" where
  "add_entity_as_specified str_of entity_id properties st =
     (case add_transaction_entity str_of (PyStr entity_id) (PyDict properties) st of
        Inl e \<Rightarrow> False
      | Inr (h, st') \<Rightarrow>
          associations st' = associations st @ map (property_link str_of entity_id) properties)"

section \<open>Result shapes\<close>

text \<open>
  The JSON shape of a result: its kind, for a mapping its keys with the kind of each
  value, and for a sequence the shapes of its elements.
\<close>

datatype kind = Null | Boolean | Number | String | Array | Object

fun kind_of :: "pyval \<Rightarrow> kind" where
  "kind_of PyNone = Null"
| "kind_of (PyBool b) = Boolean"
| "kind_of (PyInt i) = Number"
| "kind_of (PyFloat x) = Number"
| "kind_of (PyStr s) = String"
| "kind_of (PyList xs) = Array"
| "kind_of (PyDict d) = Object"

fun fields :: "pyval \<Rightarrow> (string \<times> kind) set" where
  "fields (PyDict d) = set (map (\<lambda>(k, v). (k, kind_of v)) d)"
| "fields v = {}"

fun elements :: "pyval \<Rightarrow> pyval list" where
  "elements (PyList xs) = xs"
| "elements v = []"

definition same_fields :: "pyval \<Rightarrow> pyval \<Rightarrow> bool" where
  "same_fields v w = (kind_of v = kind_of w \<and> fields v \<subseteq> fields w \<and> fields w \<subseteq> fields v)"

definition same_shape :: "pyval \<Rightarrow> pyval \<Rightarrow> bool" where
  "same_shape v w =
     (same_fields v w \<and>
      list_all (\<lambda>x. list_all (\<lambda>y. same_fields x y) (elements w)) (elements v))"

text \<open>
  The mode-agnostic property as the specification words it: on the same operation
  the absent-mode and the present-mode branch return values of the same JSON shape.
\<close>

definition mode_agnostic ::
  "(string \<Rightarrow> string) \<Rightarrow> (pyval \<Rightarrow> string) \<Rightarrow> operation \<Rightarrow> bridge \<Rightarrow> bridge \<Rightarrow> bool" where
  "mode_agnostic lower str_of op absent present =
     (case (call lower str_of op absent, call lower str_of op present) of
        (Inr (v, a'), Inr (w, p')) \<Rightarrow> same_shape v w
      | _ \<Rightarrow> False)"

text \<open>
  Two results of the same kind whose records agree up to the fields named: those of
  \<open>only_absent\<close> occur in the first result's records only, those of \<open>only_present\<close>
  in the second's only.
\<close>

definition differ_by :: "(string \<times> kind) set \<Rightarrow> (string \<times> kind) set \<Rightarrow> pyval \<Rightarrow> pyval \<Rightarrow> bool" where
  "differ_by only_absent only_present v w =
     (kind_of v = kind_of w \<and>
      list_all (\<lambda>x. list_all (\<lambda>y.
          kind_of x = kind_of y \<and>
          fields x - only_absent = fields y - only_present \<and>
          only_absent \<subseteq> fields x \<and> only_present \<subseteq> fields y \<and>
          only_absent \<inter> fields y = {} \<and> only_present \<inter> fields x = {})
        (elements w)) (elements v))"

text \<open>
  The output shapes the specification documents (section 4.2, the operation table):
  an opaque token or reference, a mapping or a sequence of records with the fields
  the table names, or nothing. The two operations the table leaves out
  (\<open>test_connection\<close>, \<open>get_opencog_version\<close>) return scalars (section 6). A value
  has a documented field when one of its keys is the name the table gives.
\<close>

datatype shape = Token | Mapping_of "string list" | Sequence_of "string list" | Nothing

fun documented_shape :: "operation \<Rightarrow> shape" where
  "documented_shape Initialize_atomspace = Token"
| "documented_shape (Create_concept_node concept) = Token"
| "documented_shape (Create_predicate_node predicate) = Token"
| "documented_shape (Add_transaction_entity entity_id properties) = Token"
| "documented_shape (Create_relationship predicate from_entity to_entity strength) = Token"
| "documented_shape (Execute_pattern_matching pattern) =
     Sequence_of [''pattern'', ''matches'', ''confidence'', ''count'']"
| "documented_shape (Run_pln_inference query max_steps) =
     Sequence_of [''query'', ''result'', ''confidence'', ''steps'']"
| "documented_shape (Detect_anomalies threshold) =
     Sequence_of [''id'', ''score'', ''type'', ''description'']"
| "documented_shape (Get_cognitive_insights entity_id) =
     Mapping_of [''entity_id'', ''behavioral_patterns'', ''cognitive_score'',
                 ''attention_level'', ''relationship_count'']"
| "documented_shape Clear_atomspace = Nothing"
| "documented_shape Test_connection = Token"
| "documented_shape Get_opencog_version = Token"
| "documented_shape Shutdown = Nothing"

fun has_fields :: "string list \<Rightarrow> pyval \<Rightarrow> bool" where
  "has_fields fs (PyDict d) = list_all (\<lambda>f. f \<in> set (map fst d)) fs"
| "has_fields fs v = False"

fun matches_shape :: "shape \<Rightarrow> pyval \<Rightarrow> bool" where
  "matches_shape Token (PyStr s) = True"
| "matches_shape (Mapping_of fs) v = has_fields fs v"
| "matches_shape (Sequence_of fs) (PyList rs) = list_all (has_fields fs) rs"
| "matches_shape Nothing PyNone = True"
| "matches_shape s v = False"

text \<open>
  The absent-mode property as the specification words it: the call does not raise
  and its value matches the documented output shape.
\<close>

definition absent_as_documented ::
  "(string \<Rightarrow> string) \<Rightarrow> (pyval \<Rightarrow> string) \<Rightarrow> operation \<Rightarrow> bridge \<Rightarrow> bool" where
  "absent_as_documented lower str_of op st =
     (case call lower str_of op st of
        Inl e \<Rightarrow> False
      | Inr (v, st') \<Rightarrow> matches_shape (documented_shape op) v)"

section \<open>Sample inputs\<close>

text \<open>
  Stand-ins for the builtins in the examples: \<open>lower\<close> on ASCII text, and \<open>str\<close> on
  the values the examples use.
\<close>

definition ascii_lower_char :: "char \<Rightarrow> char" where
  "ascii_lower_char c =
     (case map_of (zip ''ABCDEFGHIJKLMNOPQRSTUVWXYZ'' ''abcdefghijklmnopqrstuvwxyz'') c of
        None \<Rightarrow> c
      | Some d \<Rightarrow> d)"

definition ascii_lower :: "string \<Rightarrow> string" where
  "ascii_lower s = map ascii_lower_char s"

fun sample_str :: "pyval \<Rightarrow> string" where
  "sample_str (PyInt i) = (if i = 100 then ''100'' else ''0'')"
| "sample_str (PyStr s) = s"
| "sample_str v = []"

text \<open>A printer for atoms, standing in for the library's string forms in the examples.\<close>

fun show_atom :: "atom \<Rightarrow> string" where
  "show_atom (ConceptNode n) = ''(ConceptNode '' @ n @ '')''"
| "show_atom (PredicateNode n) = ''(PredicateNode '' @ n @ '')''"
| "show_atom (ListLink xs) = ''(ListLink '' @ concat (map show_atom xs) @ '')''"
| "show_atom (EvaluationLink xs) = ''(EvaluationLink '' @ concat (map show_atom xs) @ '')''"

definition empty_store :: atom_space where
  "empty_store =
     \<lparr>added = [], attention = [], atom_str = show_atom, atom_h = show_atom,
      get_predicate = (\<lambda>a. None), fault = None\<rparr>"

definition present_empty :: bridge where
  "present_empty = \<lparr>atomspace = Some empty_store, opencog_available = True\<rparr>"

definition no_backend :: environment where
  "no_backend =
     \<lparr>import_opencog = Some ImportError, new_atomspace = Inl ImportError,
      library_initialize = (\<lambda>sp. None)\<rparr>"

definition failing_initializer :: environment where
  "failing_initializer =
     \<lparr>import_opencog = None, new_atomspace = Inr empty_store,
      library_initialize = (\<lambda>sp. Some (RuntimeError ''initialization failed''))\<rparr>"

definition two_atoms :: bridge where
  "two_atoms =
     \<lparr>atomspace = Some (empty_store
        \<lparr>added := [(ConceptNode ''a'', None), (ConceptNode ''b'', None)],
         attention := [(ConceptNode ''a'', 2), (ConceptNode ''b'', 1 / 2)]\<rparr>),
      opencog_available = True\<rparr>"

definition twelve_atoms :: bridge where
  "twelve_atoms =
     \<lparr>atomspace = Some (empty_store
        \<lparr>added := map (\<lambda>n. (ConceptNode n, None))
           [''n0'', ''n1'', ''n2'', ''n3'', ''n4'', ''n5'', ''n6'', ''n7'', ''n8'', ''n9'',
            ''na'', ''nb'']\<rparr>),
      opencog_available = True\<rparr>"

section \<open>Auxiliary facts\<close>

lemma py_str_string: "py_str str_of (PyStr s) = s"
  by (simp add: py_str_def)


lemma py_min_comparable: "comparable v \<Longrightarrow> \<exists>m. py_min v b = Inr m"
  by (cases v) simp_all

lemma py_min_not_comparable: "\<not> comparable v \<Longrightarrow> py_min v b = Inl TypeError"
  by (cases v) simp_all

lemma dispatch_unknown:
  "function_name \<notin> set operation_names \<Longrightarrow>
   dispatch lower str_of function_name parameters st =
     Inl (ValueError (''Unknown function: '' @ function_name))"
  unfolding operation_names_def dispatch_def by simp

lemma run_unknown:
  "function_name \<notin> set operation_names \<Longrightarrow>
   \<exists>e. run env loads lower str_of function_name parameters_json st = Inl e"
  unfolding run_def and_then_def
  by (auto simp: dispatch_unknown split: sum.splits prod.splits)

lemma initialize_opencog_total: "\<exists>b st'. initialize_opencog env st = Inr (b, st')"
  unfolding initialize_opencog_def
  by (auto split: prod.splits sum.splits exn.splits)

lemmas operation_defs =
  returning_def returning_state_def and_then_def initialize_atomspace_def
  create_concept_node_def create_predicate_node_def add_transaction_entity_def
  create_relationship_def execute_pattern_matching_def run_pln_inference_def
  detect_anomalies_def get_cognitive_insights_def clear_atomspace_def
  get_opencog_version_def shutdown_def test_connection_def

lemma absent_call_same:
  assumes "\<not> opencog_available st" "\<not> opencog_available st2"
  shows "map_sum id fst (call lower str_of op st2) = map_sum id fst (call lower str_of op st)"
  using assms by (cases op) (simp_all add: operation_defs split: sum.splits)

lemma absent_call_returns:
  assumes "\<not> opencog_available st" "well_typed op"
  shows "\<exists>v st'. call lower str_of op st = Inr (v, st') \<and> \<not> opencog_available st'"
proof (cases op)
  case (Run_pln_inference query max_steps)
  with assms(2) obtain i where "max_steps = PyInt i" by (cases max_steps) simp_all
  with assms(1) Run_pln_inference show ?thesis by (simp add: operation_defs)
qed (use assms in \<open>simp_all add: operation_defs\<close>)

lemma collect_matches_filter:
  "collect_matches lower sp (PyStr pattern) atoms acc =
     Inr (acc @ map (atom_h sp)
            (filter (\<lambda>a. contains (lower (atom_str sp a)) (lower pattern)) atoms))"
  by (induction atoms arbitrary: acc) simp_all

lemma exceeds_number: "is_float t \<Longrightarrow> \<exists>x. \<forall>s. exceeds s t = Inr (s > x)"
  by (cases t) auto

lemma scan_filter:
  assumes "\<And>s. exceeds s threshold = Inr (s > x)"
  shows "scan sp threshold atoms acc =
     Inr (acc @ map (\<lambda>a. [(''atom_id'', PyStr (atom_h sp a)),
                (''anomaly_score'', PyFloat (asti sp a)),
                (''anomaly_type'', PyStr ''high_attention''),
                (''description'',
                   PyStr (''Atom '' @ atom_str sp a @ '' has unusually high attention value''))])
            (filter (\<lambda>a. asti sp a > x) atoms))"
  by (induction atoms arbitrary: acc) (simp_all add: assms)

lemma length_filter_mono:
  "(\<And>x. x \<in> set xs \<Longrightarrow> P x \<Longrightarrow> Q x) \<Longrightarrow> length (filter P xs) \<le> length (filter Q xs)"
  by (induction xs) auto

lemma added_add_properties:
  "added (add_properties str_of e props sp) =
     added sp @
     map (\<lambda>kv. (EvaluationLink
                  [PredicateNode (''has_'' @ fst kv),
                   ListLink [e, ConceptNode (py_str str_of (snd kv))]],
                None)) props"
  by (induction props arbitrary: sp) (auto simp: add_atom_def)

lemma filter_property_links:
  "filter is_evaluation (map (property_link str_of entity_id) props) =
     map (property_link str_of entity_id) props"
  by (induction props) (simp_all add: property_link_def)

lemma same_shape_strings: "same_shape (PyStr s) (PyStr t)"
  by (simp add: same_shape_def same_fields_def)

section \<open>Inference\<close>

text \<open>
  C5. For every query and every integer \<open>max_steps\<close>, in either mode, the inference
  operation returns one record whose \<open>steps\<close> field does not exceed \<open>max_steps\<close>.
\<close>

theorem inference_steps_bounded:
  "\<exists>r n. run_pln_inference str_of query (PyInt max_steps) st = Inr [r] \<and>
          steps_of r = Some n \<and> n \<le> max_steps"
  by (simp add: run_pln_inference_def steps_of_def and_then_def)

text \<open>With \<open>max_steps = 1\<close> the reported steps are at most 1, in absent and in present mode.\<close>

theorem inference_steps_bounded_witness:
  "(\<exists>r n. run_pln_inference sample_str (PyStr ''q'') (PyInt 1) initial = Inr [r] \<and>
      steps_of r = Some n \<and> n \<le> 1) \<and>
   (\<exists>r n. run_pln_inference sample_str (PyStr ''q'') (PyInt 1)
             (initial\<lparr>opencog_available := True\<rparr>) = Inr [r] \<and>
      steps_of r = Some n \<and> n \<le> 1)"
  using inference_steps_bounded [of sample_str "PyStr ''q''" 1 initial]
    inference_steps_bounded
      [of sample_str "PyStr ''q''" 1 "initial\<lparr>opencog_available := True\<rparr>"]
  by simp



section \<open>The dispatcher and unknown operations\<close>

text \<open>
  C7. An invocation whose operation name is not in the operation set exits with
  status 1 and prints no result JSON to standard output: with the two arguments in
  place nothing is printed at all, and with a wrong argument count only the usage
  line is.
\<close>

theorem unknown_operation_fails:
  assumes "2 \<le> length argv" "argv ! 1 \<notin> set operation_names"
  shows "exit_status (main env loads lower str_of argv st) = 1 \<and>
         list_all (\<lambda>line. case line of Json v \<Rightarrow> False | _ \<Rightarrow> True)
           (stdout (main env loads lower str_of argv st)) \<and>
         (length argv = 3 \<longrightarrow> stdout (main env loads lower str_of argv st) = [])"
proof (cases "length argv = 3")
  case True
  from run_unknown [OF assms(2)] obtain e where
    "run env loads lower str_of (argv ! 1) (argv ! 2) st = Inl e" by blast
  with True show ?thesis by (simp add: main_def)
next
  case False
  then show ?thesis by (simp add: main_def)
qed

theorem unknown_operation_fails_witness:
  "exit_status (main no_backend (\<lambda>s. Inr (PyDict [])) ascii_lower sample_str
      [''opencog_bridge.py'', ''not_a_real_op'', ''{}''] initial) = 1 \<and>
   stdout (main no_backend (\<lambda>s. Inr (PyDict [])) ascii_lower sample_str
      [''opencog_bridge.py'', ''not_a_real_op'', ''{}''] initial) = []"
  using unknown_operation_fails
    [of "[''opencog_bridge.py'', ''not_a_real_op'', ''{}'']" no_backend
      "\<lambda>s. Inr (PyDict [])" ascii_lower sample_str initial]
  by (simp add: operation_names_def)

section \<open>Context acquisition\<close>

text \<open>
  C9. If acquiring the backend fails (an import raises, the store cannot be built or
  the library's initializer raises), \<open>initialize_opencog\<close> returns \<open>False\<close> instead
  of raising and leaves the mode absent. Every operation called afterwards does what
  it does in the pristine absent state, and a well-typed one returns its value
  without raising and leaves the mode absent.
\<close>

theorem acquisition_failure_demotes:
  assumes "fst (acquire env st) = Inl e"
  shows "\<exists>st'. initialize_opencog env st = Inr (False, st') \<and> \<not> opencog_available st' \<and>
           (\<forall>op. map_sum id fst (call lower str_of op st') =
                   map_sum id fst (call lower str_of op initial) \<and>
              (well_typed op \<longrightarrow>
                (\<exists>v st'' st0. call lower str_of op st' = Inr (v, st'') \<and>
                   \<not> opencog_available st'' \<and>
                   call lower str_of op initial = Inr (v, st0))))"
proof -
  obtain r st1 where a: "acquire env st = (r, st1)" by (cases "acquire env st")
  with assms have r: "r = Inl e" by simp
  define st' where "st' = st1\<lparr>opencog_available := False\<rparr>"
  have i: "initialize_opencog env st = Inr (False, st')"
    unfolding initialize_opencog_def a r st'_def by (cases e) simp_all
  have n: "\<not> opencog_available st'" by (simp add: st'_def)
  have n0: "\<not> opencog_available initial" by (simp add: initial_def)
  have same: "map_sum id fst (call lower str_of op st') =
          map_sum id fst (call lower str_of op initial)" for op
    by (rule absent_call_same [OF n0 n])
  have "\<exists>v st'' st0. call lower str_of op st' = Inr (v, st'') \<and>
          \<not> opencog_available st'' \<and> call lower str_of op initial = Inr (v, st0)"
    if w: "well_typed op" for op
  proof -
    from absent_call_returns [OF n w, of lower str_of] obtain v st'' where
      c: "call lower str_of op st' = Inr (v, st'')" "\<not> opencog_available st''" by blast
    from absent_call_returns [OF n0 w, of lower str_of] obtain v0 st0 where
      c0: "call lower str_of op initial = Inr (v0, st0)" by blast
    from same [of op] c(1) c0 have "v0 = v" by simp
    with c c0 show ?thesis by blast
  qed
  with i n same show ?thesis by blast
qed

theorem acquisition_failure_demotes_witness:
  "fst (acquire failing_initializer initial) = Inl (RuntimeError ''initialization failed'') \<and>
   (\<exists>st'. initialize_opencog failing_initializer initial = Inr (False, st') \<and>
      \<not> opencog_available st')"
proof -
  have h: "fst (acquire failing_initializer initial) = Inl (RuntimeError ''initialization failed'')"
    by (simp add: acquire_def failing_initializer_def)
  from acquisition_failure_demotes [OF h] h show ?thesis by blast
qed

section \<open>Anomaly scan\<close>

text \<open>
  C8. The anomalies reported by the scan are antitone in the threshold: on one state,
  either both scans raise the same exception, or both return and every anomaly of the
  scan with the higher threshold is one of the scan with the lower threshold, so that
  there are no more of them.
\<close>

theorem anomalies_antitone:
  assumes "t1 \<le> t2"
  shows "(\<exists>e. detect_anomalies (PyFloat t1) st = Inl e \<and>
              detect_anomalies (PyFloat t2) st = Inl e) \<or>
         (\<exists>r1 r2. detect_anomalies (PyFloat t1) st = Inr r1 \<and>
            detect_anomalies (PyFloat t2) st = Inr r2 \<and>
            set r2 \<subseteq> set r1 \<and> length r2 \<le> length r1)"
proof (cases "opencog_available st")
  case False
  then show ?thesis by (simp add: detect_anomalies_def)
next
  case True
  show ?thesis
  proof (cases "backend AttributeError st")
    case (Inl e)
    with True show ?thesis by (simp add: detect_anomalies_def and_then_def)
  next
    case (Inr sp)
    have s: "scan sp (PyFloat t) (get_atoms_by_type sp) [] =
       Inr ([] @ map (\<lambda>a. [(''atom_id'', PyStr (atom_h sp a)),
                (''anomaly_score'', PyFloat (asti sp a)),
                (''anomaly_type'', PyStr ''high_attention''),
                (''description'',
                   PyStr (''Atom '' @ atom_str sp a @ '' has unusually high attention value''))])
            (filter (\<lambda>a. asti sp a > t) (get_atoms_by_type sp)))" for t
      by (rule scan_filter) simp
    have "length (filter (\<lambda>a. asti sp a > t2) (get_atoms_by_type sp))
            \<le> length (filter (\<lambda>a. asti sp a > t1) (get_atoms_by_type sp))"
      using assms by (intro length_filter_mono) simp
    moreover have "set (filter (\<lambda>a. asti sp a > t2) (get_atoms_by_type sp))
            \<subseteq> set (filter (\<lambda>a. asti sp a > t1) (get_atoms_by_type sp))"
      using assms by auto
    ultimately show ?thesis
      using True Inr by (simp add: detect_anomalies_def and_then_def s image_mono)
  qed
qed

text \<open>Thresholds 0 and 1 on a store with attention values 2 and 1/2: two anomalies, then one.\<close>

theorem anomalies_antitone_witness:
  "(0::rat) \<le> 1 \<and>
   (\<exists>r1 r2. detect_anomalies (PyFloat 0) two_atoms = Inr r1 \<and>
      detect_anomalies (PyFloat 1) two_atoms = Inr r2 \<and>
      set r2 \<subseteq> set r1 \<and> length r2 \<le> length r1 \<and> length r1 = 2 \<and> length r2 = 1)"
proof -
  have l1: "map_sum id length (detect_anomalies (PyFloat 0) two_atoms) = Inr 2"
    by (simp add: detect_anomalies_def two_atoms_def empty_store_def and_then_def backend_def
        get_atoms_by_type_def asti_def)
  have l2: "map_sum id length (detect_anomalies (PyFloat 1) two_atoms) = Inr 1"
    by (simp add: detect_anomalies_def two_atoms_def empty_store_def and_then_def backend_def
        get_atoms_by_type_def asti_def)
  have h: "(0::rat) \<le> 1" by simp
  from anomalies_antitone [OF h, of two_atoms] l1 l2 show ?thesis
    by auto
qed

section \<open>Pattern query\<close>

text \<open>
  C4, as the code has it. In present mode on a working store the query for a string
  pattern returns the empty sequence when no stored element matches; otherwise it
  returns one record whose matches list has length \<open>min(true_count, 10)\<close> and whose
  count is \<open>true_count\<close>. In absent mode it returns the placeholder record, with two
  mock matches and no count. This holds whatever \<open>lower\<close> does to a string.
\<close>

theorem pattern_query_present:
  "(opencog_available st \<and> atomspace st = Some sp \<and> fault sp = None \<longrightarrow>
      (\<exists>hs. length hs = true_count lower st pattern \<and>
         length (take 10 hs) = min (true_count lower st pattern) 10 \<and>
         execute_pattern_matching lower (PyStr pattern) st =
           Inr (if true_count lower st pattern = 0 then []
                else [[(''pattern'', PyStr pattern),
                       (''matches'', PyList (map PyStr (take 10 hs))),
                       (''confidence'', PyFloat (8 / 10)),
                       (''count'', PyInt (int (true_count lower st pattern)))]]))) \<and>
   (\<not> opencog_available st \<longrightarrow>
      execute_pattern_matching lower (PyStr pattern) st =
        Inr [[(''pattern'', PyStr pattern),
              (''matches'', PyList [PyStr ''mock_match_1'', PyStr ''mock_match_2'']),
              (''confidence'', PyFloat (85 / 100))]])"
proof (intro conjI impI)
  assume a: "opencog_available st \<and> atomspace st = Some sp \<and> fault sp = None"
  define hs where "hs = map (atom_h sp)
      (filter (\<lambda>a. contains (lower (atom_str sp a)) (lower pattern)) (get_atoms_by_type sp))"
  have c: "collect_matches lower sp (PyStr pattern) (get_atoms_by_type sp) [] = Inr hs"
    by (simp add: collect_matches_filter hs_def)
  have l: "length hs = true_count lower st pattern"
    using a by (simp add: hs_def true_count_def)
  have "execute_pattern_matching lower (PyStr pattern) st =
           Inr (if true_count lower st pattern = 0 then []
                else [[(''pattern'', PyStr pattern),
                       (''matches'', PyList (map PyStr (take 10 hs))),
                       (''confidence'', PyFloat (8 / 10)),
                       (''count'', PyInt (int (true_count lower st pattern)))]])"
  proof -
    have e: "(hs = []) = (true_count lower st pattern = 0)"
      using l by (cases hs) auto
    have "execute_pattern_matching lower (PyStr pattern) st =
            Inr (if hs \<noteq> []
                 then [[(''pattern'', PyStr pattern),
                        (''matches'', PyList (map PyStr (take 10 hs))),
                        (''confidence'', PyFloat (8 / 10)),
                        (''count'', PyInt (int (length hs)))]]
                 else [])"
      using a by (simp add: execute_pattern_matching_def and_then_def backend_def c)
    then show ?thesis
      using e l by simp
  qed
  with l show "\<exists>hs. length hs = true_count lower st pattern \<and>
         length (take 10 hs) = min (true_count lower st pattern) 10 \<and>
         execute_pattern_matching lower (PyStr pattern) st =
           Inr (if true_count lower st pattern = 0 then []
                else [[(''pattern'', PyStr pattern),
                       (''matches'', PyList (map PyStr (take 10 hs))),
                       (''confidence'', PyFloat (8 / 10)),
                       (''count'', PyInt (int (true_count lower st pattern)))]])"
    by (intro exI [of _ hs]) (simp add: min.commute)
next
  assume "\<not> opencog_available st"
  then show "execute_pattern_matching lower (PyStr pattern) st =
        Inr [[(''pattern'', PyStr pattern),
              (''matches'', PyList [PyStr ''mock_match_1'', PyStr ''mock_match_2'']),
              (''confidence'', PyFloat (85 / 100))]]"
    by (simp add: execute_pattern_matching_def)
qed

text \<open>Twelve stored nodes, all matching: ten handles are listed and the count is 12.\<close>

theorem pattern_query_present_witness:
  "\<exists>hs. length hs = 12 \<and> length (take 10 hs) = 10 \<and>
         execute_pattern_matching ascii_lower (PyStr ''N'') twelve_atoms =
           Inr [[(''pattern'', PyStr ''N''),
                 (''matches'', PyList (map PyStr (take 10 hs))),
                 (''confidence'', PyFloat (8 / 10)),
                 (''count'', PyInt 12)]]"
proof -
  have tc: "true_count ascii_lower twelve_atoms ''N'' = 12" by code_simp
  have a: "opencog_available twelve_atoms \<and>
           atomspace twelve_atoms = Some (the (atomspace twelve_atoms)) \<and>
           fault (the (atomspace twelve_atoms)) = None"
    by (simp add: twelve_atoms_def empty_store_def)
  from pattern_query_present
    [of twelve_atoms "the (atomspace twelve_atoms)" ascii_lower "''N''"] a tc
  show ?thesis by simp
qed

text \<open>
  The property as worded fails on a present store without a match (the result is
  empty) and in absent mode (two placeholder matches, no count).
\<close>

theorem pattern_query_counterexample:
  "\<not> pattern_query_as_specified ascii_lower present_empty ''x'' \<and>
   \<not> pattern_query_as_specified ascii_lower initial ''x''"
  by (simp add: pattern_query_as_specified_def execute_pattern_matching_def present_empty_def
      empty_store_def initial_def and_then_def backend_def get_atoms_by_type_def true_count_def)

section \<open>Entities and relationships\<close>

text \<open>
  C6, as the code has it. In present mode on a working store, add-entity returns the
  handle of the entity's node and adds exactly one labelled association per property,
  with predicate \<open>has_<key>\<close> and the value converted by \<open>str\<close>; with no property it
  adds none. In absent mode it returns the placeholder reference and touches nothing.
\<close>

theorem add_entity_present:
  "(opencog_available st \<and> atomspace st = Some sp \<and> fault sp = None \<longrightarrow>
      (\<exists>st'. add_transaction_entity str_of (PyStr entity_id) (PyDict properties) st =
                Inr (atom_h sp (ConceptNode (''entity_'' @ entity_id)), st') \<and>
         associations st' =
           associations st @ map (property_link str_of entity_id) properties \<and>
         length (associations st') = length (associations st) + length properties)) \<and>
   (\<not> opencog_available st \<longrightarrow>
      add_transaction_entity str_of (PyStr entity_id) (PyDict properties) st =
        Inr (''mock_entity_'' @ entity_id, st))"
proof (intro conjI impI)
  assume a: "opencog_available st \<and> atomspace st = Some sp \<and> fault sp = None"
  define e where "e = ConceptNode (''entity_'' @ entity_id)"
  define sp' where "sp' = add_properties str_of e properties (add_atom sp e None)"
  define st' where "st' = st\<lparr>atomspace := Some sp'\<rparr>"
  have r: "add_transaction_entity str_of (PyStr entity_id) (PyDict properties) st =
             Inr (atom_h sp e, st')"
    using a by (simp add: add_transaction_entity_def and_then_def backend_def Let_def
        e_def sp'_def st'_def py_str_string)
  have "map fst (added sp') =
          map fst (added sp) @ e # map (property_link str_of entity_id) properties"
    by (simp add: sp'_def added_add_properties add_atom_def property_link_def e_def comp_def)
  then have l: "associations st' =
          associations st @ map (property_link str_of entity_id) properties"
    using a by (simp add: associations_def st'_def filter_property_links e_def)
  from r l show "\<exists>st'. add_transaction_entity str_of (PyStr entity_id) (PyDict properties) st =
                Inr (atom_h sp (ConceptNode (''entity_'' @ entity_id)), st') \<and>
         associations st' =
           associations st @ map (property_link str_of entity_id) properties \<and>
         length (associations st') = length (associations st) + length properties"
    unfolding e_def by (intro exI [of _ st']) simp
next
  assume "\<not> opencog_available st"
  then show "add_transaction_entity str_of (PyStr entity_id) (PyDict properties) st =
        Inr (''mock_entity_'' @ entity_id, st)"
    by (simp add: add_transaction_entity_def py_str_string)
qed

text \<open>The properties \<open>{"amount": 100, "currency": "USD"}\<close> give two associations.\<close>

theorem add_entity_present_witness:
  "\<exists>st'. add_transaction_entity sample_str (PyStr ''e'')
            (PyDict [(''amount'', PyInt 100), (''currency'', PyStr ''USD'')]) present_empty =
              Inr (''(ConceptNode entity_e)'', st') \<and>
     associations st' =
       [EvaluationLink [PredicateNode ''has_amount'',
          ListLink [ConceptNode ''entity_e'', ConceptNode ''100'']],
        EvaluationLink [PredicateNode ''has_currency'',
          ListLink [ConceptNode ''entity_e'', ConceptNode ''USD'']]]"
proof -
  have a: "opencog_available present_empty \<and> atomspace present_empty = Some empty_store \<and>
           fault empty_store = None"
    by (simp add: present_empty_def empty_store_def)
  have b: "associations present_empty = []"
    by (simp add: associations_def present_empty_def empty_store_def)
  from add_entity_present
    [of present_empty empty_store sample_str "''e''"
      "[(''amount'', PyInt 100), (''currency'', PyStr ''USD'')]"] a b
  show ?thesis by (auto simp: property_link_def empty_store_def py_str_def)
qed

text \<open>In absent mode a property gives no association: the property as worded fails there.\<close>

theorem add_entity_counterexample:
  "\<not> add_entity_as_specified sample_str ''e'' [(''amount'', PyInt 100)] initial"
  by (simp add: add_entity_as_specified_def add_transaction_entity_def initial_def
      associations_def)

text \<open>
  C3. On an empty store in present mode, creating the relationship \<open>pays\<close> from
  \<open>A\<close> to \<open>B\<close> and then asking for the insights of \<open>B\<close> reports a relationship
  count of 0: the relationship links the nodes named \<open>A\<close> and \<open>B\<close>, the insights
  look at the node named \<open>entity_B\<close>. With the target spelled \<open>entity_B\<close> the count is 1.
\<close>

theorem round_trip_reports_zero:
  "and_then
     (create_relationship sample_str (PyStr ''pays'') (PyStr ''A'') (PyStr ''B'')
        (PyFloat (1 / 2)) present_empty)
     (\<lambda>(h, st1). get_cognitive_insights ascii_lower sample_str (PyStr ''B'') st1) =
   Inr [(''entity_id'', PyStr ''B''),
        (''behavioral_patterns'', PyList []),
        (''cognitive_score'', PyFloat 0),
        (''attention_level'', PyFloat 0),
        (''relationship_count'', PyInt 0)] \<and>
   and_then
     (create_relationship sample_str (PyStr ''pays'') (PyStr ''entity_A'') (PyStr ''entity_B'')
        (PyFloat (1 / 2)) present_empty)
     (\<lambda>(h, st1). and_then (get_cognitive_insights ascii_lower sample_str (PyStr ''B'') st1)
        (\<lambda>r. Inr (map_of r ''relationship_count''))) =
   Inr (Some (PyInt 1))"
  by (simp add: and_then_def create_relationship_def get_cognitive_insights_def present_empty_def
      empty_store_def backend_def add_atom_def get_incoming_def get_atoms_by_type_def
      in_atomspace_def Let_def asti_def tv_def py_str_def)

section \<open>The two modes\<close>

text \<open>
  C1, as the code has it. On an absent-mode state and a present-mode state with a
  working store, every well-typed operation returns in both. The two values have the
  same JSON shape for the operations that return a string or nothing and for the
  insights. For the pattern query and the inference the present records have every
  field of the placeholder record and one more (\<open>count\<close>, \<open>reasoning_path\<close>); for
  the anomaly scan the records agree but for the identifier, \<open>entity_id\<close> in the
  placeholder and \<open>atom_id\<close> in present mode.
\<close>

theorem branch_shapes:
  assumes "\<not> opencog_available a" "opencog_available p" "atomspace p = Some sp" "fault sp = None"
    and "well_typed op"
  shows "\<exists>v a' w p'. call lower str_of op a = Inr (v, a') \<and>
           call lower str_of op p = Inr (w, p') \<and>
     (case op of
        Execute_pattern_matching pattern \<Rightarrow> differ_by {} {(''count'', Number)} v w
      | Run_pln_inference query max_steps \<Rightarrow> differ_by {} {(''reasoning_path'', Array)} v w
      | Detect_anomalies threshold \<Rightarrow>
          differ_by {(''entity_id'', String)} {(''atom_id'', String)} v w
      | _ \<Rightarrow> same_shape v w)"
proof (cases op)
  case Initialize_atomspace
  with assms show ?thesis
    by (simp add: returning_def and_then_def initialize_atomspace_def same_shape_strings)
next
  case (Create_concept_node c)
  with assms obtain s where "c = PyStr s" by (cases c) simp_all
  with assms Create_concept_node show ?thesis
    by (simp add: returning_state_def and_then_def create_concept_node_def backend_def
        same_shape_strings Let_def)
next
  case (Create_predicate_node c)
  with assms obtain s where "c = PyStr s" by (cases c) simp_all
  with assms Create_predicate_node show ?thesis
    by (simp add: returning_state_def and_then_def create_predicate_node_def backend_def
        same_shape_strings Let_def)
next
  case (Add_transaction_entity e ps)
  with assms obtain d where "ps = PyDict d" by (cases ps) simp_all
  with assms Add_transaction_entity show ?thesis
    by (simp add: returning_state_def and_then_def add_transaction_entity_def backend_def
        same_shape_strings Let_def)
next
  case (Create_relationship pr f t s)
  with assms obtain pr' f' t' where n: "pr = PyStr pr'" "f = PyStr f'" "t = PyStr t'"
    by (cases pr; cases f; cases t) simp_all
  from assms Create_relationship obtain x where "strength_value s = Inr x"
    by (cases s) simp_all
  with assms Create_relationship n show ?thesis
    by (simp add: returning_state_def and_then_def create_relationship_def backend_def
        same_shape_strings Let_def)
next
  case (Execute_pattern_matching pattern)
  with assms obtain s where "pattern = PyStr s" by (cases pattern) simp_all
  with assms Execute_pattern_matching show ?thesis
    by (simp add: returning_def and_then_def execute_pattern_matching_def backend_def
        records_def differ_by_def collect_matches_filter insert_Diff_if)
next
  case (Run_pln_inference q m)
  with assms obtain s i where "q = PyStr s" "m = PyInt i" by (cases q; cases m) simp_all
  with assms Run_pln_inference show ?thesis
    by (simp add: returning_def and_then_def run_pln_inference_def records_def differ_by_def
        insert_Diff_if)
next
  case (Detect_anomalies t)
  with assms have "is_float t" by simp
  from exceeds_number [OF this] obtain x where x: "\<And>s. exceeds s t = Inr (s > x)" by blast
  from assms Detect_anomalies show ?thesis
    by (simp add: returning_def and_then_def detect_anomalies_def backend_def
        scan_filter [of t x, OF x]
        records_def differ_by_def list.pred_map comp_def list.pred_True insert_Diff_if)
next
  case (Get_cognitive_insights e)
  with assms obtain s where "e = PyStr s" by (cases e) simp_all
  with assms Get_cognitive_insights show ?thesis
    by (simp add: returning_def and_then_def get_cognitive_insights_def backend_def
        same_shape_def same_fields_def Let_def)
next
  case Clear_atomspace
  with assms show ?thesis
    by (simp add: and_then_def clear_atomspace_def backend_def same_shape_def same_fields_def)
next
  case Test_connection
  with assms show ?thesis by (simp add: same_shape_strings)
next
  case Get_opencog_version
  with assms show ?thesis by (simp add: same_shape_strings)
next
  case Shutdown
  with assms show ?thesis by (simp add: same_shape_def same_fields_def)
qed

theorem branch_shapes_witness:
  "\<exists>v a' w p'.
      call ascii_lower sample_str (Get_cognitive_insights (PyStr ''a'')) initial = Inr (v, a') \<and>
      call ascii_lower sample_str (Get_cognitive_insights (PyStr ''a'')) two_atoms = Inr (w, p') \<and>
      same_shape v w"
  using branch_shapes
    [of initial two_atoms "the (atomspace two_atoms)" "Get_cognitive_insights (PyStr ''a'')"
      ascii_lower sample_str]
  by (simp add: initial_def two_atoms_def empty_store_def)

text \<open>
  The shapes differ for the inference, for a pattern query with a match and for an
  anomaly scan with an anomaly.
\<close>

theorem mode_agnostic_counterexample:
  "\<not> mode_agnostic ascii_lower sample_str (Run_pln_inference (PyStr ''q'') (PyInt 1))
       initial present_empty \<and>
   \<not> mode_agnostic ascii_lower sample_str (Execute_pattern_matching (PyStr ''a''))
       initial two_atoms \<and>
   \<not> mode_agnostic ascii_lower sample_str (Detect_anomalies (PyFloat 0)) initial two_atoms"
  apply (intro conjI)
  subgoal
    by (simp add: mode_agnostic_def same_fields_def same_shape_def returning_def and_then_def
      records_def run_pln_inference_def initial_def present_empty_def)
  subgoal
    by (simp add: mode_agnostic_def same_fields_def same_shape_def returning_def and_then_def
      records_def execute_pattern_matching_def initial_def two_atoms_def empty_store_def
      backend_def get_atoms_by_type_def ascii_lower_def ascii_lower_char_def)
  subgoal
    by (simp add: mode_agnostic_def same_fields_def same_shape_def returning_def and_then_def
      records_def detect_anomalies_def initial_def two_atoms_def empty_store_def backend_def
      get_atoms_by_type_def asti_def)
  done

text \<open>
  C2, as the code has it. In absent mode an operation does the same on every
  absent-mode state, and it returns without raising on every input but one: the
  inference raises TypeError when \<open>max_steps\<close> is not a number. The value matches the
  documented output shape for the operations that return a token, a reference or
  nothing and for the insights. The placeholders of the pattern query, the inference
  and the anomaly scan are single records whose keys are not the documented ones:
  there is no \<open>count\<close>, \<open>inference_result\<close> stands for \<open>result\<close>, and \<open>entity_id\<close>,
  \<open>anomaly_score\<close>, \<open>anomaly_type\<close> stand for \<open>id\<close>, \<open>score\<close>, \<open>type\<close>.
\<close>

theorem absent_total:
  assumes "\<not> opencog_available st"
  shows "(\<forall>st2. \<not> opencog_available st2 \<longrightarrow>
            map_sum id fst (call lower str_of op st2) = map_sum id fst (call lower str_of op st)) \<and>
     (case op of
        Execute_pattern_matching pattern \<Rightarrow>
          call lower str_of op st =
            Inr (records [[(''pattern'', pattern),
                   (''matches'', PyList [PyStr ''mock_match_1'', PyStr ''mock_match_2'']),
                   (''confidence'', PyFloat (85 / 100))]], st)
      | Run_pln_inference query max_steps \<Rightarrow>
          (if comparable max_steps
           then \<exists>steps. call lower str_of op st =
                  Inr (records [[(''query'', query),
                         (''inference_result'', PyStr ''mock_inference_result''),
                         (''confidence'', PyFloat (75 / 100)),
                         (''steps'', steps)]], st)
           else call lower str_of op st = Inl TypeError)
      | Detect_anomalies threshold \<Rightarrow>
          call lower str_of op st =
            Inr (records [[(''entity_id'', PyStr ''mock_entity_1''),
                   (''anomaly_score'', PyFloat (95 / 100)),
                   (''anomaly_type'', PyStr ''unusual_transaction_pattern''),
                   (''description'', PyStr ''Mock anomaly detection result'')]], st)
      | _ \<Rightarrow> (\<exists>v st'. call lower str_of op st = Inr (v, st') \<and>
                matches_shape (documented_shape op) v))"
proof (intro conjI allI impI)
  fix st2 :: bridge
  assume "\<not> opencog_available st2"
  with assms show "map_sum id fst (call lower str_of op st2) =
      map_sum id fst (call lower str_of op st)"
    by (rule absent_call_same)
next
  show "case op of
        Execute_pattern_matching pattern \<Rightarrow>
          call lower str_of op st =
            Inr (records [[(''pattern'', pattern),
                   (''matches'', PyList [PyStr ''mock_match_1'', PyStr ''mock_match_2'']),
                   (''confidence'', PyFloat (85 / 100))]], st)
      | Run_pln_inference query max_steps \<Rightarrow>
          (if comparable max_steps
           then \<exists>steps. call lower str_of op st =
                  Inr (records [[(''query'', query),
                         (''inference_result'', PyStr ''mock_inference_result''),
                         (''confidence'', PyFloat (75 / 100)),
                         (''steps'', steps)]], st)
           else call lower str_of op st = Inl TypeError)
      | Detect_anomalies threshold \<Rightarrow>
          call lower str_of op st =
            Inr (records [[(''entity_id'', PyStr ''mock_entity_1''),
                   (''anomaly_score'', PyFloat (95 / 100)),
                   (''anomaly_type'', PyStr ''unusual_transaction_pattern''),
                   (''description'', PyStr ''Mock anomaly detection result'')]], st)
      | _ \<Rightarrow> (\<exists>v st'. call lower str_of op st = Inr (v, st') \<and>
                matches_shape (documented_shape op) v)"
  proof (cases op)
    case (Run_pln_inference query max_steps)
    show ?thesis
    proof (cases "comparable max_steps")
      case True
      from py_min_comparable [OF True, of 5] obtain m where "py_min max_steps 5 = Inr m" by blast
      with assms True Run_pln_inference show ?thesis
        by (simp add: operation_defs records_def)
    next
      case False
      from py_min_not_comparable [OF False, of 5] assms False Run_pln_inference show ?thesis
        by (simp add: operation_defs)
    qed
  qed (use assms in \<open>simp_all add: operation_defs records_def\<close>)
qed

theorem absent_total_witness:
  "\<not> opencog_available initial \<and>
   (\<exists>v st'. call ascii_lower sample_str (Get_cognitive_insights (PyStr ''a'')) initial =
        Inr (v, st') \<and>
      matches_shape
        (Mapping_of [''entity_id'', ''behavioral_patterns'', ''cognitive_score'',
                     ''attention_level'', ''relationship_count'']) v)"
proof -
  have h: "\<not> opencog_available initial" by (simp add: initial_def)
  from absent_total [OF h, of ascii_lower sample_str "Get_cognitive_insights (PyStr ''a'')"]
  obtain v st' where
    "call ascii_lower sample_str (Get_cognitive_insights (PyStr ''a'')) initial = Inr (v, st')"
    "matches_shape (documented_shape (Get_cognitive_insights (PyStr ''a''))) v"
    by auto
  with h show ?thesis by auto
qed

text \<open>
  In absent mode the placeholders of the pattern query, the inference and the anomaly
  scan lack documented fields, and the inference raises on a \<open>max_steps\<close> that is a
  string.
\<close>

theorem absent_shape_counterexample:
  "\<not> absent_as_documented ascii_lower sample_str (Execute_pattern_matching (PyStr ''x'')) initial \<and>
   \<not> absent_as_documented ascii_lower sample_str
       (Run_pln_inference (PyStr ''q'') (PyInt 1)) initial \<and>
   \<not> absent_as_documented ascii_lower sample_str (Detect_anomalies (PyFloat 0)) initial \<and>
   \<not> absent_as_documented ascii_lower sample_str
       (Run_pln_inference (PyStr ''q'') (PyStr ''2'')) initial \<and>
   call ascii_lower sample_str (Run_pln_inference (PyStr ''q'') (PyStr ''2'')) initial =
     Inl TypeError"
  by (simp add: absent_as_documented_def initial_def operation_defs records_def)

end
